theory Spec2Isabelle
  imports Main
begin

section \<open>Python values\<close>

text \<open>
  The values that travel through \<^verbatim>\<open>prefect/client.py\<close>: what \<^verbatim>\<open>response.json()\<close>
  returns, what is stored in \<^verbatim>\<open>self.token\<close>, and what is passed as request parameters.
  A Python \<^verbatim>\<open>str\<close> is a \<^typ>\<open>string\<close>, each character read as the code point of the same
  number; a \<^verbatim>\<open>dict\<close> with string keys is an association list in insertion order, looked up
  with \<^const>\<open>map_of\<close>. Floating point numbers are not represented.
\<close>

datatype pyval =
    PyNone
  | PyBool bool
  | PyInt int
  | PyStr string
  | PyList "pyval list"
  | PyDict "(string \<times> pyval) list"

text \<open>Truth value testing, as in \<^verbatim>\<open>if self.token:\<close> and \<^verbatim>\<open>email or ...\<close>.\<close>

fun truthy :: "pyval \<Rightarrow> bool" where
  "truthy PyNone = False"
| "truthy (PyBool b) = b"
| "truthy (PyInt i) = (i \<noteq> 0)"
| "truthy (PyStr s) = (s \<noteq> [])"
| "truthy (PyList xs) = (xs \<noteq> [])"
| "truthy (PyDict kvs) = (kvs \<noteq> [])"

text \<open>\<^verbatim>\<open>d.get(k)\<close>: the value stored under the key, \<^verbatim>\<open>None\<close> when there is none.\<close>

definition dict_get :: "(string \<times> pyval) list \<Rightarrow> string \<Rightarrow> pyval" where
  "dict_get d k = (case map_of d k of None \<Rightarrow> PyNone | Some v \<Rightarrow> v)"

subsection \<open>Text of a value\<close>

fun digits :: "nat \<Rightarrow> string" where
  "digits n =
     (if n < 10 then [''0123456789'' ! n]
      else digits (n div 10) @ [''0123456789'' ! (n mod 10)])"

definition int_str :: "int \<Rightarrow> string" where
  "int_str i = (if i < 0 then CHR ''-'' # digits (nat (- i)) else digits (nat i))"

definition hex2 :: "nat \<Rightarrow> string" where
  "hex2 n = [''0123456789abcdef'' ! (n div 16), ''0123456789abcdef'' ! (n mod 16)]"

text \<open>\<^verbatim>\<open>sep.join(xs)\<close>.\<close>

fun join :: "string \<Rightarrow> string list \<Rightarrow> string" where
  "join sep [] = []"
| "join sep [x] = x"
| "join sep (x # y # ys) = x @ sep @ join sep (y # ys)"

text \<open>
  \<^verbatim>\<open>repr\<close> of a string: single quotes unless the string holds a single quote and no double
  quote; the quote character and the backslash are escaped, tab, newline and carriage
  return are written as letters, the other characters that are not printable in hexadecimal.
\<close>

definition repr_quote :: "string \<Rightarrow> char" where
  "repr_quote s = (if CHR 0x27 \<in> set s \<and> CHR 0x22 \<notin> set s then CHR 0x22 else CHR 0x27)"

definition repr_char :: "char \<Rightarrow> char \<Rightarrow> string" where
  "repr_char q c =
     (let n = (of_char c :: nat) in
      if c = q \<or> c = CHR 0x5C then [CHR 0x5C, c]
      else if c = CHR 0x09 then [CHR 0x5C, CHR ''t'']
      else if c = CHR 0x0A then [CHR 0x5C, CHR ''n'']
      else if c = CHR 0x0D then [CHR 0x5C, CHR ''r'']
      else if n < 32 \<or> n = 127 \<or> (128 \<le> n \<and> n \<le> 160) \<or> n = 173
        then [CHR 0x5C, CHR ''x''] @ hex2 n
      else [c])"

definition repr_str :: "string \<Rightarrow> string" where
  "repr_str s = (let q = repr_quote s in [q] @ concat (map (repr_char q) s) @ [q])"

fun repr :: "pyval \<Rightarrow> string" where
  "repr PyNone = ''None''"
| "repr (PyBool b) = (if b then ''True'' else ''False'')"
| "repr (PyInt i) = int_str i"
| "repr (PyStr s) = repr_str s"
| "repr (PyList xs) = ''['' @ join '', '' (map repr xs) @ '']''"
| "repr (PyDict kvs) =
     ''{'' @ join '', '' (map (\<lambda>(k, v). repr_str k @ '': '' @ repr v) kvs) @ ''}''"

text \<open>
  What \<^verbatim>\<open>"{}".format(v)\<close> puts in the place of the braces: the string itself for a string,
  \<^verbatim>\<open>repr\<close> for the other values (so \<^verbatim>\<open>None\<close> is written \<^verbatim>\<open>None\<close>).
\<close>

fun format :: "pyval \<Rightarrow> string" where
  "format (PyStr s) = s"
| "format v = repr v"

text \<open>
  \<^verbatim>\<open>json.dumps\<close> with its default arguments: separators \<^verbatim>\<open>", "\<close> and \<^verbatim>\<open>": "\<close>, and every
  character outside the printable ASCII range escaped.
\<close>

definition json_escape_char :: "char \<Rightarrow> string" where
  "json_escape_char c =
     (let n = (of_char c :: nat) in
      if c = CHR 0x22 then [CHR 0x5C, CHR 0x22]
      else if c = CHR 0x5C then [CHR 0x5C, CHR 0x5C]
      else if c = CHR 0x0A then [CHR 0x5C, CHR ''n'']
      else if c = CHR 0x0D then [CHR 0x5C, CHR ''r'']
      else if c = CHR 0x09 then [CHR 0x5C, CHR ''t'']
      else if c = CHR 0x08 then [CHR 0x5C, CHR ''b'']
      else if c = CHR 0x0C then [CHR 0x5C, CHR ''f'']
      else if n < 32 \<or> 126 < n then [CHR 0x5C, CHR ''u'', CHR ''0'', CHR ''0''] @ hex2 n
      else [c])"

definition json_string :: "string \<Rightarrow> string" where
  "json_string s = [CHR 0x22] @ concat (map json_escape_char s) @ [CHR 0x22]"

fun json_dumps :: "pyval \<Rightarrow> string" where
  "json_dumps PyNone = ''null''"
| "json_dumps (PyBool b) = (if b then ''true'' else ''false'')"
| "json_dumps (PyInt i) = int_str i"
| "json_dumps (PyStr s) = json_string s"
| "json_dumps (PyList xs) = ''['' @ join '', '' (map json_dumps xs) @ '']''"
| "json_dumps (PyDict kvs) =
     ''{'' @ join '', '' (map (\<lambda>(k, v). json_string k @ '': '' @ json_dumps v) kvs) @ ''}''"

subsection \<open>Paths\<close>

text \<open>\<^verbatim>\<open>s.lstrip("/")\<close>, \<^verbatim>\<open>s.rstrip("/")\<close> and \<^verbatim>\<open>os.path.join(a, b)\<close> on a POSIX system.\<close>

definition lstrip :: "char \<Rightarrow> string \<Rightarrow> string" where
  "lstrip ch s = dropWhile (\<lambda>x. x = ch) s"

definition rstrip :: "char \<Rightarrow> string \<Rightarrow> string" where
  "rstrip ch s = rev (dropWhile (\<lambda>x. x = ch) (rev s))"

definition os_path_join :: "string \<Rightarrow> string \<Rightarrow> string" where
  "os_path_join a b =
     (if b \<noteq> [] \<and> hd b = CHR ''/'' then b
      else if a = [] \<or> last a = CHR ''/'' then a @ b
      else a @ ''/'' @ b)"

section \<open>The network and the file system\<close>

text \<open>
  A request as one call of the \<^verbatim>\<open>requests\<close> library puts it on the wire. The three
  functions below are the calls the client makes: \<^verbatim>\<open>requests.get(url, headers=, params=)\<close>,
  \<^verbatim>\<open>requests.post(url, headers=, json=, auth=)\<close> and \<^verbatim>\<open>requests.delete(url, headers=)\<close>.
\<close>

record http_request =
  req_method :: string
  req_url :: string
  req_headers :: "(string \<times> string) list"
  req_params :: "(string \<times> pyval) list option"
  req_json :: "(string \<times> pyval) list option"
  req_auth :: "(string \<times> string) option"

definition requests_get ::
  "string \<Rightarrow> (string \<times> string) list \<Rightarrow> (string \<times> pyval) list \<Rightarrow> http_request" where
  "requests_get u hs ps =
     \<lparr>req_method = ''GET'', req_url = u, req_headers = hs, req_params = Some ps,
      req_json = None, req_auth = None\<rparr>"

definition requests_post ::
  "string \<Rightarrow> (string \<times> string) list \<Rightarrow> (string \<times> pyval) list option \<Rightarrow>
   (string \<times> string) option \<Rightarrow> http_request" where
  "requests_post u hs js au =
     \<lparr>req_method = ''POST'', req_url = u, req_headers = hs, req_params = None,
      req_json = js, req_auth = au\<rparr>"

definition requests_delete :: "string \<Rightarrow> (string \<times> string) list \<Rightarrow> http_request" where
  "requests_delete u hs =
     \<lparr>req_method = ''DELETE'', req_url = u, req_headers = hs, req_params = None,
      req_json = None, req_auth = None\<rparr>"

text \<open>
  A response: its status, the body as text, and the body as \<^verbatim>\<open>response.json()\<close> decodes it
  (\<^const>\<open>None\<close> when the body is not JSON, and then \<^verbatim>\<open>json()\<close> raises).
\<close>

record response =
  status_code :: int
  resp_text :: string
  resp_json :: "pyval option"

datatype error =
    ValueError pyval
  | AttributeError string
  | TypeError
  | KeyError string
  | JSONDecodeError
  | HTTPError response
  | ConnectionError string

text \<open>
  \<^verbatim>\<open>ValueError\<close> carries its argument, \<^verbatim>\<open>AttributeError\<close> the name of the attribute that is
  missing, \<^verbatim>\<open>HTTPError\<close> the response that \<^verbatim>\<open>raise_for_status\<close> refused, and
  \<^verbatim>\<open>ConnectionError\<close> stands for the exceptions of the \<^verbatim>\<open>requests\<close> library that
  are raised when no response arrives; none of them is an \<^verbatim>\<open>HTTPError\<close>.
\<close>

text \<open>\<^verbatim>\<open>response.raise_for_status()\<close> raises for the statuses 400 to 599; \<^verbatim>\<open>response.ok\<close>
  is true when it does not raise.\<close>

definition raise_for_status :: "response \<Rightarrow> error + unit" where
  "raise_for_status r =
     (if 400 \<le> status_code r \<and> status_code r < 600 then Inl (HTTPError r) else Inr ())"

definition ok :: "response \<Rightarrow> bool" where
  "ok r = (case raise_for_status r of Inl _ \<Rightarrow> False | Inr _ \<Rightarrow> True)"

text \<open>
  The server is any deterministic function of the requests received so far and the
  request at hand: it answers with a response, or the call fails without one. The world
  the client acts on holds the log of the requests sent (oldest first) and the credential
  directory \<^verbatim>\<open>~/.prefect/.credentials\<close> with its file \<^verbatim>\<open>auth_token\<close>.
\<close>

datatype reply = Reply response | Fails string

type_synonym transport = "http_request list \<Rightarrow> http_request \<Rightarrow> reply"

record world =
  sent :: "http_request list"
  creds_dir :: bool
  auth_token_file :: "string option"

definition send :: "transport \<Rightarrow> world \<Rightarrow> http_request \<Rightarrow> reply \<times> world" where
  "send T w rq = (T (sent w) rq, w\<lparr>sent := sent w @ [rq]\<rparr>)"

section \<open>The client\<close>

text \<open>
  The attribute \<^verbatim>\<open>self.token\<close> either holds a value (\<^verbatim>\<open>None\<close> included) or has been
  deleted by \<^verbatim>\<open>del self.token\<close>; reading a deleted attribute raises \<^verbatim>\<open>AttributeError\<close>.
\<close>

datatype slot = Deleted | Holds pyval

record client =
  api_server :: string
  graphql_server :: string
  token :: slot

text \<open>The part of \<^verbatim>\<open>prefect.config.cloud\<close> that the client reads; \<^const>\<open>None\<close> is a key
  that is not set.\<close>

record config =
  cfg_api :: "string option"
  cfg_graphql :: "string option"
  cfg_auth_token :: "string option"
  cfg_email :: "string option"
  cfg_password :: "string option"

text \<open>\<^verbatim>\<open>Client.__init__\<close>.\<close>

definition init :: "config \<Rightarrow> world \<Rightarrow> string option \<Rightarrow> error + client" where
  "init cfg w tok =
     (case cfg_api cfg of
        None \<Rightarrow> Inl (ValueError (PyStr ''Could not determine API server.''))
      | Some api \<Rightarrow>
          if api = [] then Inl (ValueError (PyStr ''Could not determine API server.''))
          else
            let gql = (case cfg_graphql cfg of None \<Rightarrow> api
                       | Some g \<Rightarrow> if g = [] then api else g);
                t = (case tok of
                       Some s \<Rightarrow> PyStr s
                     | None \<Rightarrow>
                         (case cfg_auth_token cfg of
                            Some s \<Rightarrow> PyStr s
                          | None \<Rightarrow>
                              (case auth_token_file w of
                                 Some s \<Rightarrow> PyStr s
                               | None \<Rightarrow> PyNone)))
            in Inr \<lparr>api_server = api, graphql_server = gql, token = Holds t\<rparr>)"

text \<open>The headers \<^verbatim>\<open>{"Authorization": "Bearer {}".format(self.token)}\<close>.\<close>

definition bearer :: "pyval \<Rightarrow> (string \<times> string) list" where
  "bearer t = [(''Authorization'', ''Bearer '' @ format t)]"

text \<open>\<^verbatim>\<open>Client.refresh_token\<close>, and the request it sends when the token is \<open>t\<close>.\<close>

definition refresh_request :: "client \<Rightarrow> pyval \<Rightarrow> http_request" where
  "refresh_request c t =
     requests_post (os_path_join (api_server c) ''refresh_token'') (bearer t) None None"

definition refresh_token ::
  "transport \<Rightarrow> client \<Rightarrow> world \<Rightarrow> (error + unit) \<times> client \<times> world" where
  "refresh_token T c w =
     (case token c of
        Deleted \<Rightarrow> (Inl (AttributeError ''token''), c, w)
      | Holds t \<Rightarrow>
          (case send T w (refresh_request c t) of
             (Fails m, w1) \<Rightarrow> (Inl (ConnectionError m), c, w1)
           | (Reply r, w1) \<Rightarrow>
               (case resp_json r of
                  None \<Rightarrow> (Inl JSONDecodeError, c, w1)
                | Some (PyDict d) \<Rightarrow> (Inr (), c\<lparr>token := Holds (dict_get d ''token'')\<rparr>, w1)
                | Some _ \<Rightarrow> (Inl (AttributeError ''get''), c, w1))))"

text \<open>
  The inner function \<^verbatim>\<open>request_fn\<close> of \<^verbatim>\<open>Client._request\<close>: first its choice of the
  library call by the method, then the whole of it.
\<close>

definition method_call ::
  "string \<Rightarrow> string \<Rightarrow> (string \<times> string) list \<Rightarrow> (string \<times> pyval) list \<Rightarrow>
   error + http_request" where
  "method_call method u hs ps =
     (if method = ''GET'' then Inr (requests_get u hs ps)
      else if method = ''POST'' then Inr (requests_post u hs (Some ps) None)
      else if method = ''DELETE'' then Inr (requests_delete u hs)
      else Inl (ValueError (PyStr (''Invalid method: '' @ method))))"

definition request_fn ::
  "transport \<Rightarrow> client \<Rightarrow> world \<Rightarrow> string \<Rightarrow> string \<Rightarrow> (string \<times> pyval) list \<Rightarrow>
   (error + response) \<times> world" where
  "request_fn T c w method u ps =
     (case token c of
        Deleted \<Rightarrow> (Inl (AttributeError ''token''), w)
      | Holds t \<Rightarrow>
          (case method_call method u (bearer t) ps of
             Inl e \<Rightarrow> (Inl e, w)
           | Inr rq \<Rightarrow>
               (case send T w rq of
                  (Fails m, w1) \<Rightarrow> (Inl (ConnectionError m), w1)
                | (Reply r, w1) \<Rightarrow>
                    (case raise_for_status r of
                       Inl e \<Rightarrow> (Inl e, w1)
                     | Inr _ \<Rightarrow> (Inr r, w1)))))"

text \<open>
  \<^verbatim>\<open>Client._request\<close> (an Isabelle name cannot begin with an underscore). The URL and the
  parameters are computed once, before the first attempt; the \<^verbatim>\<open>except\<close> clause catches
  \<^verbatim>\<open>HTTPError\<close> only.
\<close>

definition request_url :: "string \<Rightarrow> string \<Rightarrow> string" where
  "request_url server path = rstrip CHR ''/'' (os_path_join server (lstrip CHR ''/'' path))"

definition server_or_api :: "client \<Rightarrow> string option \<Rightarrow> string" where
  "server_or_api c server = (case server of None \<Rightarrow> api_server c | Some s \<Rightarrow> s)"

definition or_empty :: "(string \<times> pyval) list option \<Rightarrow> (string \<times> pyval) list" where
  "or_empty params = (case params of None \<Rightarrow> [] | Some d \<Rightarrow> d)"

definition request ::
  "transport \<Rightarrow> client \<Rightarrow> world \<Rightarrow> string \<Rightarrow> string \<Rightarrow> (string \<times> pyval) list option \<Rightarrow>
   string option \<Rightarrow> (error + response) \<times> client \<times> world" where
  "request T c w method path params server =
     (let server = server_or_api c server in
      case token c of
        Deleted \<Rightarrow> (Inl (AttributeError ''token''), c, w)
      | Holds PyNone \<Rightarrow>
          (Inl (ValueError (PyStr ''Call Client.login() to set the client token.'')), c, w)
      | Holds _ \<Rightarrow>
          (let u = request_url server path;
               ps = or_empty params
           in case request_fn T c w method u ps of
                (Inr r, w1) \<Rightarrow> (Inr r, c, w1)
              | (Inl (HTTPError r), w1) \<Rightarrow>
                  if status_code r = 401 then
                    (case refresh_token T c w1 of
                       (Inl e, c2, w2) \<Rightarrow> (Inl e, c2, w2)
                     | (Inr _, c2, w2) \<Rightarrow>
                         (case request_fn T c2 w2 method u ps of
                            (res, w3) \<Rightarrow> (res, c2, w3)))
                  else (Inl (HTTPError r), c, w1)
              | (Inl e, w1) \<Rightarrow> (Inl e, c, w1)))"

text \<open>\<^verbatim>\<open>Client.post\<close>.\<close>

definition post ::
  "transport \<Rightarrow> client \<Rightarrow> world \<Rightarrow> string \<Rightarrow> string option \<Rightarrow> (string \<times> pyval) list \<Rightarrow>
   (error + pyval) \<times> client \<times> world" where
  "post T c w path server params =
     (case request T c w ''POST'' path (Some params) server of
        (Inl e, c1, w1) \<Rightarrow> (Inl e, c1, w1)
      | (Inr r, c1, w1) \<Rightarrow>
          if resp_text r \<noteq> [] then
            (case resp_json r of
               None \<Rightarrow> (Inl JSONDecodeError, c1, w1)
             | Some v \<Rightarrow> (Inr v, c1, w1))
          else (Inr (PyDict []), c1, w1))"

text \<open>
  \<^verbatim>\<open>"errors" in result\<close> and \<^verbatim>\<open>result["errors"]\<close> for whatever the body decoded to:
  a key of a dictionary, an element of a list, a part of a string; the other values
  are not containers.
\<close>

fun is_substring :: "string \<Rightarrow> string \<Rightarrow> bool" where
  "is_substring p [] = (p = [])"
| "is_substring p (x # xs) = (take (length p) (x # xs) = p \<or> is_substring p xs)"

fun contains :: "pyval \<Rightarrow> string \<Rightarrow> error + bool" where
  "contains (PyDict kvs) k = Inr (map_of kvs k \<noteq> None)"
| "contains (PyList xs) k = Inr (PyStr k \<in> set xs)"
| "contains (PyStr s) k = Inr (is_substring k s)"
| "contains v k = Inl TypeError"

fun getitem :: "pyval \<Rightarrow> string \<Rightarrow> error + pyval" where
  "getitem (PyDict kvs) k = (case map_of kvs k of None \<Rightarrow> Inl (KeyError k) | Some v \<Rightarrow> Inr v)"
| "getitem v k = Inl TypeError"

text \<open>
  Modelled from the spec: \<^verbatim>\<open>as_nested_dict\<close> and \<^verbatim>\<open>GraphQLResult\<close> of
  \<^verbatim>\<open>prefect.utilities.graphql\<close>, which \<^verbatim>\<open>client.py\<close> imports and whose source is not
  among the files verified here. The spec's result wrapper turns mappings into nodes that are read by attribute,
  keeps arrays as sequences of wrapped elements and leaves scalars as they are; reading an
  attribute that a node does not have, or an attribute of anything but a node, fails.
\<close>

datatype graphql_result =
    Node "(string \<times> graphql_result) list"
  | Seq "graphql_result list"
  | Scalar pyval

fun as_nested_dict :: "pyval \<Rightarrow> graphql_result" where
  "as_nested_dict (PyDict kvs) = Node (map (\<lambda>(k, v). (k, as_nested_dict v)) kvs)"
| "as_nested_dict (PyList xs) = Seq (map as_nested_dict xs)"
| "as_nested_dict v = Scalar v"

fun getattr :: "graphql_result \<Rightarrow> string \<Rightarrow> error + graphql_result" where
  "getattr (Node kvs) k = (case map_of kvs k of None \<Rightarrow> Inl (AttributeError k) | Some v \<Rightarrow> Inr v)"
| "getattr v k = Inl (AttributeError k)"

text \<open>\<^verbatim>\<open>Client.graphql\<close>; the keyword arguments of the call are \<open>variables\<close>.\<close>

definition graphql_params :: "string \<Rightarrow> (string \<times> pyval) list \<Rightarrow> (string \<times> pyval) list" where
  "graphql_params query variables =
     [(''query'', PyStr query), (''variables'', PyStr (json_dumps (PyDict variables)))]"

definition graphql ::
  "transport \<Rightarrow> client \<Rightarrow> world \<Rightarrow> string \<Rightarrow> (string \<times> pyval) list \<Rightarrow>
   (error + graphql_result) \<times> client \<times> world" where
  "graphql T c w query variables =
     (case post T c w [] (Some (graphql_server c)) (graphql_params query variables) of
        (Inl e, c1, w1) \<Rightarrow> (Inl e, c1, w1)
      | (Inr result, c1, w1) \<Rightarrow>
          (case contains result ''errors'' of
             Inl e \<Rightarrow> (Inl e, c1, w1)
           | Inr True \<Rightarrow>
               (case getitem result ''errors'' of
                  Inl e \<Rightarrow> (Inl e, c1, w1)
                | Inr v \<Rightarrow> (Inl (ValueError v), c1, w1))
           | Inr False \<Rightarrow>
               (case getattr (as_nested_dict result) ''data'' of
                  Inl e \<Rightarrow> (Inl e, c1, w1)
                | Inr d \<Rightarrow> (Inr d, c1, w1))))"

text \<open>
  \<^verbatim>\<open>Client.login\<close>. \<^verbatim>\<open>email or prefect.config.cloud.email\<close> reads the configuration only
  when the argument is missing or empty. Opening the credential file with mode
  \<^verbatim>\<open>"w+"\<close> empties it before \<^verbatim>\<open>f.write\<close> is reached, and \<^verbatim>\<open>f.write\<close> accepts a string only.
\<close>

definition or_config :: "string option \<Rightarrow> string option \<Rightarrow> string \<Rightarrow> error + string" where
  "or_config arg cfg name =
     (case arg of
        Some s \<Rightarrow> if s \<noteq> [] then Inr s
                  else (case cfg of None \<Rightarrow> Inl (AttributeError name) | Some v \<Rightarrow> Inr v)
      | None \<Rightarrow> (case cfg of None \<Rightarrow> Inl (AttributeError name) | Some v \<Rightarrow> Inr v))"

definition optional_str :: "string option \<Rightarrow> pyval" where
  "optional_str a = (case a of None \<Rightarrow> PyNone | Some s \<Rightarrow> PyStr s)"

definition write_token :: "world \<Rightarrow> pyval \<Rightarrow> (error + unit) \<times> world" where
  "write_token w t =
     (let w1 = w\<lparr>creds_dir := True, auth_token_file := Some []\<rparr> in
      case t of
        PyStr s \<Rightarrow> (Inr (), w1\<lparr>auth_token_file := Some s\<rparr>)
      | _ \<Rightarrow> (Inl TypeError, w1))"

definition login_request ::
  "client \<Rightarrow> string \<Rightarrow> string \<Rightarrow> string option \<Rightarrow> string option \<Rightarrow> http_request" where
  "login_request c em pw account_slug account_id =
     requests_post (os_path_join (api_server c) ''login'') []
       (Some [(''account_id'', optional_str account_id),
              (''account_slug'', optional_str account_slug)])
       (Some (em, pw))"

definition login ::
  "config \<Rightarrow> transport \<Rightarrow> client \<Rightarrow> world \<Rightarrow> string option \<Rightarrow> string option \<Rightarrow>
   string option \<Rightarrow> string option \<Rightarrow> (error + unit) \<times> client \<times> world" where
  "login cfg T c w email password account_slug account_id =
     (case or_config email (cfg_email cfg) ''email'' of
        Inl e \<Rightarrow> (Inl e, c, w)
      | Inr em \<Rightarrow>
     (case or_config password (cfg_password cfg) ''password'' of
        Inl e \<Rightarrow> (Inl e, c, w)
      | Inr pw \<Rightarrow>
     (case send T w (login_request c em pw account_slug account_id) of
        (Fails m, w1) \<Rightarrow> (Inl (ConnectionError m), c, w1)
      | (Reply r, w1) \<Rightarrow>
          if \<not> ok r then (Inl (ValueError (PyStr ''Could not log in.'')), c, w1)
          else
            (case resp_json r of
               None \<Rightarrow> (Inl JSONDecodeError, c, w1)
             | Some (PyDict d) \<Rightarrow>
                 (let t = dict_get d ''token''; c1 = c\<lparr>token := Holds t\<rparr> in
                  if truthy t then
                    (case write_token w1 t of (res, w2) \<Rightarrow> (res, c1, w2))
                  else (Inr (), c1, w1))
             | Some _ \<Rightarrow> (Inl (AttributeError ''get''), c, w1)))))"

text \<open>\<^verbatim>\<open>Client.logout\<close>: the file is removed when it exists, then the attribute is deleted.\<close>

definition logout :: "client \<Rightarrow> world \<Rightarrow> (error + unit) \<times> client \<times> world" where
  "logout c w =
     (let w1 = (if auth_token_file w \<noteq> None then w\<lparr>auth_token_file := None\<rparr> else w) in
      case token c of
        Deleted \<Rightarrow> (Inl (AttributeError ''token''), c, w1)
      | Holds t \<Rightarrow> (Inr (), c\<lparr>token := Deleted\<rparr>, w1))"

section \<open>The encoding of the variables in the spec's words\<close>

text \<open>
  The spec describes the \<^verbatim>\<open>variables\<close> field of the GraphQL request body as a JSON string in
  which each variable value has been serialised on its own before it was placed there.
  This definition follows those words; it is compared below with what
  \<^const>\<open>graphql_params\<close> computes.
\<close>

definition spec_variables :: "(string \<times> pyval) list \<Rightarrow> pyval" where
  "spec_variables variables =
     PyStr (json_dumps (PyDict (map (\<lambda>(k, v). (k, PyStr (json_dumps v))) variables)))"

section \<open>Servers, clients and worlds to run the client on\<close>

text \<open>
  A scripted server answers the \<open>n\<close>-th request it receives with the \<open>n\<close>-th reply of its
  script, whatever the request, and with no response once the script is used up.
\<close>

definition scripted :: "reply list \<Rightarrow> transport" where
  "scripted rs log rq = (if length log < length rs then rs ! length log else Fails ''no reply'')"

definition json_reply :: "int \<Rightarrow> pyval \<Rightarrow> reply" where
  "json_reply st v = Reply \<lparr>status_code = st, resp_text = json_dumps v, resp_json = Some v\<rparr>"

definition unauthorized :: response where
  "unauthorized = \<lparr>status_code = 401, resp_text = ''Unauthorized'', resp_json = None\<rparr>"

definition server_error :: response where
  "server_error = \<lparr>status_code = 500, resp_text = ''Internal Server Error'', resp_json = None\<rparr>"

definition example_config :: config where
  "example_config =
     \<lparr>cfg_api = Some ''https://api'', cfg_graphql = Some ''https://api/graphql/'',
      cfg_auth_token = None, cfg_email = None, cfg_password = None\<rparr>"

definition example_client :: "slot \<Rightarrow> client" where
  "example_client t =
     \<lparr>api_server = ''https://api'', graphql_server = ''https://api/graphql/'', token = t\<rparr>"

definition fresh_world :: world where
  "fresh_world = \<lparr>sent = [], creds_dir = False, auth_token_file = None\<rparr>"

definition logged_in_world :: world where
  "logged_in_world = \<lparr>sent = [], creds_dir = True, auth_token_file = Some ''old''\<rparr>"

section \<open>Facts about single steps\<close>

lemmas python_defs = dict_get_def bearer_def lstrip_def rstrip_def os_path_join_def
  request_url_def server_or_api_def or_empty_def requests_get_def requests_post_def
  requests_delete_def raise_for_status_def ok_def

lemmas text_defs = int_str_def hex2_def json_escape_char_def json_string_def repr_quote_def
  repr_char_def repr_str_def

lemmas example_defs = scripted_def json_reply_def unauthorized_def server_error_def
  example_config_def example_client_def fresh_world_def logged_in_world_def

lemmas client_defs = send_def refresh_request_def refresh_token_def method_call_def
  request_fn_def request_def post_def

text \<open>An \<^verbatim>\<open>HTTPError\<close> out of \<^const>\<open>request_fn\<close> means that one request went out and was
  answered with a status that \<^const>\<open>raise_for_status\<close> refuses.\<close>

lemma request_fn_HTTPError:
  assumes "request_fn T c w method u ps = (Inl (HTTPError r), w1)"
  shows "\<exists>t rq. token c = Holds t \<and> method_call method u (bearer t) ps = Inr rq \<and>
           T (sent w) rq = Reply r \<and> w1 = w\<lparr>sent := sent w @ [rq]\<rparr> \<and>
           400 \<le> status_code r \<and> status_code r < 600"
  using assms
  by (auto simp: request_fn_def send_def raise_for_status_def method_call_def
      split: slot.splits sum.splits reply.splits if_splits)

lemma request_fn_world:
  assumes "token c = Holds t" and "method_call method u (bearer t) ps = Inr rq"
  shows "snd (request_fn T c w method u ps) = w\<lparr>sent := sent w @ [rq]\<rparr>"
  using assms
  by (simp add: request_fn_def send_def split: reply.splits sum.splits)

lemma method_call_other_token:
  assumes "method_call method u (bearer t) ps = Inr rq"
  shows "\<exists>rq2. method_call method u (bearer t2) ps = Inr rq2 \<and>
           req_json rq2 = req_json rq \<and> req_params rq2 = req_params rq \<and>
           req_method rq2 = req_method rq \<and> req_url rq2 = req_url rq \<and>
           req_headers rq2 = bearer t2"
  using assms
  by (auto simp: method_call_def requests_get_def requests_post_def requests_delete_def
      split: if_splits)

text \<open>A refresh sends its one request, and either raises and leaves the client as it was or
  returns with a new token.\<close>

lemma refresh_token_cases:
  assumes "token c = Holds t"
  shows "(\<exists>e. refresh_token T c w = (Inl e, c, w\<lparr>sent := sent w @ [refresh_request c t]\<rparr>)) \<or>
         (\<exists>t2. refresh_token T c w =
                 (Inr (), c\<lparr>token := Holds t2\<rparr>, w\<lparr>sent := sent w @ [refresh_request c t]\<rparr>))"
  using assms
  by (auto simp: refresh_token_def send_def split: reply.splits option.splits pyval.splits)

text \<open>\<^const>\<open>request\<close> once the check of the token has passed.\<close>

lemma request_unfold:
  assumes "token c = Holds t" and "t \<noteq> PyNone"
  shows "request T c w method path params server =
           (case request_fn T c w method (request_url (server_or_api c server) path)
                   (or_empty params) of
              (Inr r, w1) \<Rightarrow> (Inr r, c, w1)
            | (Inl (HTTPError r), w1) \<Rightarrow>
                if status_code r = 401 then
                  (case refresh_token T c w1 of
                     (Inl e, c2, w2) \<Rightarrow> (Inl e, c2, w2)
                   | (Inr x, c2, w2) \<Rightarrow>
                       (case request_fn T c2 w2 method (request_url (server_or_api c server) path)
                               (or_empty params) of
                          (res, w3) \<Rightarrow> (res, c2, w3)))
                else (Inl (HTTPError r), c, w1)
            | (Inl e, w1) \<Rightarrow> (Inl e, c, w1))"
  using assms by (cases t) (simp_all add: request_def Let_def)

lemma request_401:
  assumes "token c = Holds t" and "t \<noteq> PyNone"
    and "request_fn T c w method (request_url (server_or_api c server) path) (or_empty params)
           = (Inl (HTTPError r), w1)"
    and "status_code r = 401"
  shows "request T c w method path params server =
           (case refresh_token T c w1 of
              (Inl e, c2, w2) \<Rightarrow> (Inl e, c2, w2)
            | (Inr x, c2, w2) \<Rightarrow>
                (case request_fn T c2 w2 method (request_url (server_or_api c server) path)
                        (or_empty params) of
                   (res, w3) \<Rightarrow> (res, c2, w3)))"
  using assms(3,4) by (simp add: request_unfold [OF assms(1,2)])

text \<open>The requests that one call of \<^const>\<open>request\<close> sends: the request itself; or the request
  and a refresh; or the request, a refresh and the request once more.\<close>

lemma request_sent_cases:
  assumes "token c = Holds t" and "t \<noteq> PyNone"
    and "method_call method (request_url (server_or_api c server) path) (bearer t)
           (or_empty params) = Inr rq1"
  shows "sent (snd (snd (request T c w method path params server))) = sent w @ [rq1] \<or>
         sent (snd (snd (request T c w method path params server))) =
           sent w @ [rq1, refresh_request c t] \<or>
         (\<exists>t2 rq2. method_call method (request_url (server_or_api c server) path) (bearer t2)
                      (or_empty params) = Inr rq2 \<and>
            sent (snd (snd (request T c w method path params server))) =
              sent w @ [rq1, refresh_request c t, rq2])"
proof -
  let ?u = "request_url (server_or_api c server) path"
  let ?ps = "or_empty params"
  let ?w1 = "w\<lparr>sent := sent w @ [rq1]\<rparr>"
  let ?w2 = "?w1\<lparr>sent := sent ?w1 @ [refresh_request c t]\<rparr>"
  obtain res where first: "request_fn T c w method ?u ?ps = (res, ?w1)"
    using request_fn_world [OF assms(1,3), of T w] by (cases "request_fn T c w method ?u ?ps") simp
  note unf = request_unfold [OF assms(1,2), of T w "method" "path" params server]
  show ?thesis
  proof (cases "\<exists>r. res = Inl (HTTPError r) \<and> status_code r = 401")
    case False
    then have "snd (snd (request T c w method path params server)) = ?w1"
      unfolding unf first by (auto split: sum.splits error.splits)
    then show ?thesis by simp
  next
    case True
    then obtain r where res: "res = Inl (HTTPError r)" and st: "status_code r = 401" by blast
    have req: "request T c w method path params server =
        (case refresh_token T c ?w1 of
           (Inl e, c2, w2) \<Rightarrow> (Inl e, c2, w2)
         | (Inr x, c2, w2) \<Rightarrow>
             (case request_fn T c2 w2 method ?u ?ps of (res, w3) \<Rightarrow> (res, c2, w3)))"
      unfolding unf first res using st by simp
    from refresh_token_cases [OF assms(1), of T ?w1] show ?thesis
    proof (elim disjE exE)
      fix e assume "refresh_token T c ?w1 = (Inl e, c, ?w2)"
      then show ?thesis unfolding req by simp
    next
      fix t2 assume rf: "refresh_token T c ?w1 = (Inr (), c\<lparr>token := Holds t2\<rparr>, ?w2)"
      obtain rq2 where rq2: "method_call method ?u (bearer t2) ?ps = Inr rq2"
        using method_call_other_token [OF assms(3)] by blast
      have "token (c\<lparr>token := Holds t2\<rparr>) = Holds t2" by simp
      from request_fn_world [OF this rq2, of T ?w2]
      have "snd (snd (request T c w method path params server)) = ?w2\<lparr>sent := sent ?w2 @ [rq2]\<rparr>"
        unfolding req rf by (auto split: prod.splits)
      with rq2 show ?thesis by auto
    qed
  qed
qed

lemma request_post_sent:
  assumes "token c = Holds t" and "t \<noteq> PyNone"
  shows "\<exists>rest. sent (snd (snd (request T c w ''POST'' path (Some ps) server))) =
           sent w @ requests_post (request_url (server_or_api c server) path) (bearer t)
                      (Some ps) None # rest \<and>
           (\<forall>q\<in>set rest. req_json q = None \<or> req_json q = Some ps)"
proof -
  let ?u = "request_url (server_or_api c server) path"
  let ?rq1 = "requests_post ?u (bearer t) (Some ps) None"
  have mc: "method_call ''POST'' ?u (bearer t) (or_empty (Some ps)) = Inr ?rq1"
    by (simp add: method_call_def or_empty_def)
  have rj: "req_json (refresh_request c t) = None"
    by (simp add: refresh_request_def requests_post_def)
  have mj: "req_json rq2 = Some ps"
    if "method_call ''POST'' ?u (bearer t2) (or_empty (Some ps)) = Inr rq2" for t2 rq2
    using that by (auto simp: method_call_def or_empty_def requests_post_def)
  from request_sent_cases [OF assms mc, of T w] show ?thesis
    using rj mj by (elim disjE exE conjE) auto
qed

text \<open>\<^const>\<open>post\<close> and \<^const>\<open>graphql\<close> touch the world through \<^const>\<open>request\<close> only.\<close>

lemma post_world:
  "snd (snd (post T c w path server ps)) = snd (snd (request T c w ''POST'' path (Some ps) server))"
  by (auto simp: post_def split: prod.splits sum.splits option.splits)

lemma graphql_world:
  "snd (snd (graphql T c w query variables)) =
   snd (snd (post T c w [] (Some (graphql_server c)) (graphql_params query variables)))"
  by (auto simp: graphql_def split: prod.splits sum.splits bool.splits)

section \<open>The claims\<close>

subsection \<open>C5: no token, no network call\<close>

text \<open>
  C5. A request issued on a client whose token is absent, that is \<^verbatim>\<open>None\<close> as the constructor
  leaves it when it finds none, fails at once with the \<^verbatim>\<open>ValueError\<close> that tells the caller
  to log in, and the world is left as it was: nothing is sent, whatever the method, the path,
  the parameters and the server.
\<close>

theorem request_without_token:
  assumes "token c = Holds PyNone"
  shows "request T c w method path params server =
           (Inl (ValueError (PyStr ''Call Client.login() to set the client token.'')), c, w) \<and>
         sent (snd (snd (request T c w method path params server))) = sent w"
  using assms by (simp add: request_def)

theorem request_without_token_witness:
  "init example_config fresh_world None = Inr (example_client (Holds PyNone)) \<and>
   token (example_client (Holds PyNone)) = Holds PyNone \<and>
   request (scripted []) (example_client (Holds PyNone)) fresh_world ''GET'' ''flows'' None None =
     (Inl (ValueError (PyStr ''Call Client.login() to set the client token.'')),
      example_client (Holds PyNone), fresh_world) \<and>
   sent fresh_world = []"
  using request_without_token [of "example_client (Holds PyNone)" "scripted []" fresh_world
      "''GET''" "''flows''" None None]
  by (simp add: init_def example_defs)

subsection \<open>C10: an HTTP error other than 401\<close>

text \<open>
  C10. When the first dispatch of a request fails with an HTTP error whose status is not 401,
  that error is the outcome of the call, the client (its token included) is unchanged, and the
  one request dispatched is all that was sent: no refresh took place.
\<close>

theorem request_other_status:
  assumes "token c = Holds t" and "t \<noteq> PyNone"
    and "request_fn T c w method (request_url (server_or_api c server) path) (or_empty params)
           = (Inl (HTTPError r), w1)"
    and "status_code r \<noteq> 401"
  shows "request T c w method path params server = (Inl (HTTPError r), c, w1) \<and>
         (\<exists>rq. method_call method (request_url (server_or_api c server) path) (bearer t)
                  (or_empty params) = Inr rq \<and> sent w1 = sent w @ [rq])"
proof -
  from assms(3) obtain t' rq where
    "token c = Holds t'"
    "method_call method (request_url (server_or_api c server) path) (bearer t')
       (or_empty params) = Inr rq"
    "w1 = w\<lparr>sent := sent w @ [rq]\<rparr>"
    using request_fn_HTTPError by blast
  with assms(1) have
    "\<exists>rq. method_call method (request_url (server_or_api c server) path) (bearer t)
            (or_empty params) = Inr rq \<and> sent w1 = sent w @ [rq]"
    by auto
  moreover have "request T c w method path params server = (Inl (HTTPError r), c, w1)"
    using assms(3,4) by (simp add: request_unfold [OF assms(1,2)])
  ultimately show ?thesis by blast
qed

theorem request_other_status_witness:
  "token (example_client (Holds (PyStr ''old''))) = Holds (PyStr ''old'') \<and>
   PyStr ''old'' \<noteq> PyNone \<and>
   request_fn (scripted [Reply server_error]) (example_client (Holds (PyStr ''old'')))
      fresh_world ''DELETE''
      (request_url (server_or_api (example_client (Holds (PyStr ''old''))) None) ''/flows/7/'')
      (or_empty None) =
     (Inl (HTTPError server_error),
      fresh_world\<lparr>sent := [requests_delete ''https://api/flows/7''
                               [(''Authorization'', ''Bearer old'')]]\<rparr>) \<and>
   status_code server_error \<noteq> 401 \<and>
   request (scripted [Reply server_error]) (example_client (Holds (PyStr ''old'')))
      fresh_world ''DELETE'' ''/flows/7/'' None None =
     (Inl (HTTPError server_error), example_client (Holds (PyStr ''old'')),
      fresh_world\<lparr>sent := [requests_delete ''https://api/flows/7''
                               [(''Authorization'', ''Bearer old'')]]\<rparr>)"
  using request_other_status [of "example_client (Holds (PyStr ''old''))" "PyStr ''old''"
      "scripted [Reply server_error]" fresh_world "''DELETE''" None "''/flows/7/''" None
      server_error
      "fresh_world\<lparr>sent := [requests_delete ''https://api/flows/7''
                               [(''Authorization'', ''Bearer old'')]]\<rparr>"]
  by (simp add: python_defs example_defs client_defs)

subsection \<open>C1: one refresh and one retry after a 401\<close>

text \<open>
  The spec words C1 for every request whose first dispatch yields 401: one refresh, then one
  resend, two dispatches in all. The resend is reached only when the refresh call returns.
  Here the refresh endpoint answers with a body that is not JSON, \<^verbatim>\<open>response.json()\<close> raises
  inside \<^const>\<open>refresh_token\<close>, and the request has been dispatched once, not twice.
\<close>

theorem request_401_refresh_raises:
  "request_fn (scripted [Reply unauthorized, Reply unauthorized])
      (example_client (Holds (PyStr ''old''))) fresh_world ''GET'' ''https://api/flows'' [] =
     (Inl (HTTPError unauthorized),
      fresh_world\<lparr>sent := [requests_get ''https://api/flows''
                               [(''Authorization'', ''Bearer old'')] []]\<rparr>) \<and>
   status_code unauthorized = 401 \<and>
   request (scripted [Reply unauthorized, Reply unauthorized])
      (example_client (Holds (PyStr ''old''))) fresh_world ''GET'' ''flows'' None None =
     (Inl JSONDecodeError, example_client (Holds (PyStr ''old'')),
      fresh_world\<lparr>sent :=
        [requests_get ''https://api/flows'' [(''Authorization'', ''Bearer old'')] [],
         requests_post ''https://api/refresh_token'' [(''Authorization'', ''Bearer old'')]
           None None]\<rparr>) \<and>
   length (filter (\<lambda>q. req_url q = ''https://api/flows'')
     (sent (snd (snd (request (scripted [Reply unauthorized, Reply unauthorized])
        (example_client (Holds (PyStr ''old''))) fresh_world ''GET'' ''flows'' None None))))) = 1"
  by (simp add: python_defs example_defs client_defs)

text \<open>
  C1, as the code has it. When the first dispatch of a request yields status 401, the refresh
  operation is called once. If it raises, its error is the outcome of the call and the
  request is not sent again: the requests sent are the first dispatch and the refresh. If it
  returns, the request is rebuilt with the token now stored and sent once more; whatever that
  second dispatch yields, a response or any failure, a 401 included, is the outcome of the
  call as it is, and the requests sent are exactly the first dispatch, the refresh and the
  second dispatch.
\<close>

theorem request_401_once:
  assumes "token c = Holds t" and "t \<noteq> PyNone"
    and "request_fn T c w method (request_url (server_or_api c server) path) (or_empty params)
           = (Inl (HTTPError r), w1)"
    and "status_code r = 401"
  shows "\<exists>rq1. method_call method (request_url (server_or_api c server) path) (bearer t)
                 (or_empty params) = Inr rq1 \<and>
           (case refresh_token T c w1 of
              (Inl e, c2, w2) \<Rightarrow>
                 request T c w method path params server = (Inl e, c, w2) \<and>
                 sent w2 = sent w @ [rq1, refresh_request c t]
            | (Inr x, c2, w2) \<Rightarrow>
                (\<exists>t2 rq2 res w3. token c2 = Holds t2 \<and>
                   method_call method (request_url (server_or_api c server) path) (bearer t2)
                     (or_empty params) = Inr rq2 \<and>
                   request_fn T c2 w2 method (request_url (server_or_api c server) path)
                     (or_empty params) = (res, w3) \<and>
                   request T c w method path params server = (res, c2, w3) \<and>
                   sent w3 = sent w @ [rq1, refresh_request c t, rq2]))"
proof -
  let ?u = "request_url (server_or_api c server) path"
  let ?ps = "or_empty params"
  from assms(3) assms(1) obtain rq1 where
    rq1: "method_call method ?u (bearer t) ?ps = Inr rq1" and w1: "w1 = w\<lparr>sent := sent w @ [rq1]\<rparr>"
    using request_fn_HTTPError by fastforce
  note req = request_401 [OF assms]
  from refresh_token_cases [OF assms(1), of T w1]
  have "case refresh_token T c w1 of
              (Inl e, c2, w2) \<Rightarrow>
                 request T c w method path params server = (Inl e, c, w2) \<and>
                 sent w2 = sent w @ [rq1, refresh_request c t]
            | (Inr x, c2, w2) \<Rightarrow>
                (\<exists>t2 rq2 res w3. token c2 = Holds t2 \<and>
                   method_call method ?u (bearer t2) ?ps = Inr rq2 \<and>
                   request_fn T c2 w2 method ?u ?ps = (res, w3) \<and>
                   request T c w method path params server = (res, c2, w3) \<and>
                   sent w3 = sent w @ [rq1, refresh_request c t, rq2])"
  proof (elim disjE exE)
    fix e
    assume "refresh_token T c w1 = (Inl e, c, w1\<lparr>sent := sent w1 @ [refresh_request c t]\<rparr>)"
    then show ?thesis using req w1 by simp
  next
    fix t2
    let ?c2 = "c\<lparr>token := Holds t2\<rparr>"
    let ?w2 = "w1\<lparr>sent := sent w1 @ [refresh_request c t]\<rparr>"
    assume r: "refresh_token T c w1 = (Inr (), ?c2, ?w2)"
    obtain rq2 where rq2: "method_call method ?u (bearer t2) ?ps = Inr rq2"
      using method_call_other_token [OF rq1] by blast
    have "token ?c2 = Holds t2" by simp
    from request_fn_world [OF this rq2, of T ?w2]
    obtain res where fn: "request_fn T ?c2 ?w2 method ?u ?ps = (res, ?w2\<lparr>sent := sent ?w2 @ [rq2]\<rparr>)"
      by (cases "request_fn T ?c2 ?w2 method ?u ?ps") simp
    show ?thesis using r req rq2 fn w1 by auto
  qed
  with rq1 show ?thesis
    by - (rule exI [of _ rq1], rule conjI, assumption, assumption)
qed

theorem request_401_once_witness:
  "token (example_client (Holds (PyStr ''old''))) = Holds (PyStr ''old'') \<and>
   PyStr ''old'' \<noteq> PyNone \<and>
   request_fn (scripted [Reply unauthorized, json_reply 200 (PyDict [(''token'', PyStr ''new'')]),
         Reply unauthorized])
      (example_client (Holds (PyStr ''old''))) fresh_world ''GET''
      (request_url (server_or_api (example_client (Holds (PyStr ''old''))) None) ''flows'')
      (or_empty None) =
     (Inl (HTTPError unauthorized),
      fresh_world\<lparr>sent := [requests_get ''https://api/flows''
                               [(''Authorization'', ''Bearer old'')] []]\<rparr>) \<and>
   status_code unauthorized = 401 \<and>
   request (scripted [Reply unauthorized, json_reply 200 (PyDict [(''token'', PyStr ''new'')]),
         Reply unauthorized])
      (example_client (Holds (PyStr ''old''))) fresh_world ''GET'' ''flows'' None None =
     (Inl (HTTPError unauthorized), example_client (Holds (PyStr ''new'')),
      fresh_world\<lparr>sent :=
        [requests_get ''https://api/flows'' [(''Authorization'', ''Bearer old'')] [],
         requests_post ''https://api/refresh_token'' [(''Authorization'', ''Bearer old'')]
           None None,
         requests_get ''https://api/flows'' [(''Authorization'', ''Bearer new'')] []]\<rparr>)"
  using request_401_once [of "example_client (Holds (PyStr ''old''))" "PyStr ''old''"
      "scripted [Reply unauthorized, json_reply 200 (PyDict [(''token'', PyStr ''new'')]),
         Reply unauthorized]" fresh_world "''GET''" None "''flows''" None unauthorized
      "fresh_world\<lparr>sent := [requests_get ''https://api/flows''
                               [(''Authorization'', ''Bearer old'')] []]\<rparr>"]
  by (simp add: python_defs example_defs client_defs)

subsection \<open>C9: the retry after a refresh that yields no token\<close>

text \<open>
  C9. When the first dispatch of a request yields 401 and the body of the refresh response is
  an object without a usable token (no \<^verbatim>\<open>token\<close> key, or \<^verbatim>\<open>null\<close> under it), the stored token
  becomes \<^verbatim>\<open>None\<close> and the request is still sent a second time, with the header
  \<^verbatim>\<open>Authorization: Bearer None\<close>. The outcome of the call is what the server makes of that
  second request; the check for a missing token is not made again, so the outcome is never
  the \<^verbatim>\<open>ValueError\<close> that asks the caller to log in.
\<close>

theorem retry_after_null_refresh:
  assumes "token c = Holds t" and "t \<noteq> PyNone"
    and "request_fn T c w method (request_url (server_or_api c server) path) (or_empty params)
           = (Inl (HTTPError r), w1)"
    and "status_code r = 401"
    and "T (sent w1) (refresh_request c t) = Reply rr"
    and "resp_json rr = Some (PyDict d)"
    and "dict_get d ''token'' = PyNone"
  shows "\<exists>rq2. method_call method (request_url (server_or_api c server) path)
                 [(''Authorization'', ''Bearer None'')] (or_empty params) = Inr rq2 \<and>
           request T c w method path params server =
             (case T (sent w1 @ [refresh_request c t]) rq2 of
                Fails m \<Rightarrow> Inl (ConnectionError m)
              | Reply r2 \<Rightarrow> (case raise_for_status r2 of Inl e \<Rightarrow> Inl e | Inr x \<Rightarrow> Inr r2),
              c\<lparr>token := Holds PyNone\<rparr>,
              w1\<lparr>sent := sent w1 @ [refresh_request c t, rq2]\<rparr>) \<and>
           fst (request T c w method path params server) \<noteq>
             Inl (ValueError (PyStr ''Call Client.login() to set the client token.''))"
proof -
  let ?u = "request_url (server_or_api c server) path"
  let ?ps = "or_empty params"
  from assms(3) assms(1) obtain rq1 where
    rq1: "method_call method ?u (bearer t) ?ps = Inr rq1"
    using request_fn_HTTPError by fastforce
  have b: "bearer PyNone = [(''Authorization'', ''Bearer None'')]"
    by (simp add: bearer_def)
  obtain rq2 where rq2: "method_call method ?u [(''Authorization'', ''Bearer None'')] ?ps = Inr rq2"
    using method_call_other_token [OF rq1, of PyNone] unfolding b by blast
  have rf: "refresh_token T c w1 =
      (Inr (), c\<lparr>token := Holds PyNone\<rparr>, w1\<lparr>sent := sent w1 @ [refresh_request c t]\<rparr>)"
    using assms(1,5,6,7) by (simp add: refresh_token_def send_def)
  have req: "request T c w method path params server =
             (case T (sent w1 @ [refresh_request c t]) rq2 of
                Fails m \<Rightarrow> Inl (ConnectionError m)
              | Reply r2 \<Rightarrow> (case raise_for_status r2 of Inl e \<Rightarrow> Inl e | Inr x \<Rightarrow> Inr r2),
              c\<lparr>token := Holds PyNone\<rparr>,
              w1\<lparr>sent := sent w1 @ [refresh_request c t, rq2]\<rparr>)"
    using request_401 [OF assms(1-4)] rf rq2 b
    by (simp add: request_fn_def send_def split: reply.splits sum.splits)
  have "fst (request T c w method path params server) \<noteq>
             Inl (ValueError (PyStr ''Call Client.login() to set the client token.''))"
    unfolding req by (simp add: raise_for_status_def split: reply.splits)
  with rq2 req show ?thesis
    by - (rule exI [of _ rq2], intro conjI, assumption+)
qed

theorem retry_after_null_refresh_witness:
  "token (example_client (Holds (PyStr ''old''))) = Holds (PyStr ''old'') \<and>
   PyStr ''old'' \<noteq> PyNone \<and>
   request_fn (scripted [Reply unauthorized, json_reply 200 (PyDict []), json_reply 200 (PyList [])])
      (example_client (Holds (PyStr ''old''))) fresh_world ''GET''
      (request_url (server_or_api (example_client (Holds (PyStr ''old''))) None) ''flows'')
      (or_empty None) =
     (Inl (HTTPError unauthorized),
      fresh_world\<lparr>sent := [requests_get ''https://api/flows''
                               [(''Authorization'', ''Bearer old'')] []]\<rparr>) \<and>
   status_code unauthorized = 401 \<and>
   scripted [Reply unauthorized, json_reply 200 (PyDict []), json_reply 200 (PyList [])]
      [requests_get ''https://api/flows'' [(''Authorization'', ''Bearer old'')] []]
      (refresh_request (example_client (Holds (PyStr ''old''))) (PyStr ''old'')) =
     Reply \<lparr>status_code = 200, resp_text = ''{}'', resp_json = Some (PyDict [])\<rparr> \<and>
   dict_get [] ''token'' = PyNone \<and>
   request (scripted [Reply unauthorized, json_reply 200 (PyDict []), json_reply 200 (PyList [])])
      (example_client (Holds (PyStr ''old''))) fresh_world ''GET'' ''flows'' None None =
     (Inr \<lparr>status_code = 200, resp_text = ''[]'', resp_json = Some (PyList [])\<rparr>,
      example_client (Holds PyNone),
      fresh_world\<lparr>sent :=
        [requests_get ''https://api/flows'' [(''Authorization'', ''Bearer old'')] [],
         requests_post ''https://api/refresh_token'' [(''Authorization'', ''Bearer old'')]
           None None,
         requests_get ''https://api/flows'' [(''Authorization'', ''Bearer None'')] []]\<rparr>)"
  using retry_after_null_refresh [of "example_client (Holds (PyStr ''old''))" "PyStr ''old''"
      "scripted [Reply unauthorized, json_reply 200 (PyDict []), json_reply 200 (PyList [])]"
      fresh_world "''GET''" None "''flows''" None unauthorized
      "fresh_world\<lparr>sent := [requests_get ''https://api/flows''
                               [(''Authorization'', ''Bearer old'')] []]\<rparr>"
      "\<lparr>status_code = 200, resp_text = ''{}'', resp_json = Some (PyDict [])\<rparr>" "[]"]
  by (simp add: python_defs example_defs client_defs)

subsection \<open>C2: a login response without a token\<close>

text \<open>
  The spec words C2 as: after a successful login whose response body has no \<^verbatim>\<open>token\<close> field,
  the stored token is the one stored before. The assignment
  \<^verbatim>\<open>self.token = response.json().get("token")\<close> is not conditional: a client that held
  the token \<^verbatim>\<open>old\<close> holds \<^verbatim>\<open>None\<close> afterwards. Only the credential file keeps its content.
\<close>

theorem login_without_token_drops_token:
  "ok \<lparr>status_code = 200, resp_text = ''{}'', resp_json = Some (PyDict [])\<rparr> \<and>
   map_of ([] :: (string \<times> pyval) list) ''token'' = None \<and>
   login example_config (scripted [json_reply 200 (PyDict [])])
      (example_client (Holds (PyStr ''old''))) logged_in_world
      (Some ''ada@example.org'') (Some ''secret'') None None =
     (Inr (), example_client (Holds PyNone),
      logged_in_world\<lparr>sent := [login_request (example_client (Holds (PyStr ''old'')))
                                    ''ada@example.org'' ''secret'' None None]\<rparr>) \<and>
   token (example_client (Holds PyNone)) \<noteq> token (example_client (Holds (PyStr ''old''))) \<and>
   auth_token_file logged_in_world = Some ''old''"
  by (simp add: login_def or_config_def python_defs example_defs send_def login_request_def
      optional_str_def)

text \<open>
  C2, as the code has it. After a login call whose response is successful and whose body is
  an object without a \<^verbatim>\<open>token\<close> field, the token stored in memory is \<^verbatim>\<open>None\<close>, whatever it
  was before, and the credential directory and file on disk are as they were: the world
  differs only by the login request in the log.
\<close>

theorem login_without_token_field:
  assumes "or_config email (cfg_email cfg) ''email'' = Inr em"
    and "or_config password (cfg_password cfg) ''password'' = Inr pw"
    and "T (sent w) (login_request c em pw account_slug account_id) = Reply r"
    and "ok r"
    and "resp_json r = Some (PyDict d)"
    and "map_of d ''token'' = None"
  shows "login cfg T c w email password account_slug account_id =
           (Inr (), c\<lparr>token := Holds PyNone\<rparr>,
            w\<lparr>sent := sent w @ [login_request c em pw account_slug account_id]\<rparr>)"
  using assms by (simp add: login_def send_def dict_get_def)

theorem login_without_token_field_witness:
  "or_config None (cfg_email (example_config\<lparr>cfg_email := Some ''ada@example.org''\<rparr>)) ''email''
     = Inr ''ada@example.org'' \<and>
   or_config (Some ''secret'')
     (cfg_password (example_config\<lparr>cfg_email := Some ''ada@example.org''\<rparr>)) ''password''
     = Inr ''secret'' \<and>
   scripted [json_reply 200 (PyDict [(''user'', PyStr ''ada'')])] (sent logged_in_world)
     (login_request (example_client (Holds (PyStr ''old''))) ''ada@example.org'' ''secret''
        (Some ''acme'') None) =
     json_reply 200 (PyDict [(''user'', PyStr ''ada'')]) \<and>
   ok \<lparr>status_code = 200, resp_text = json_dumps (PyDict [(''user'', PyStr ''ada'')]),
       resp_json = Some (PyDict [(''user'', PyStr ''ada'')])\<rparr> \<and>
   map_of [(''user'', PyStr ''ada'')] ''token'' = None \<and>
   login (example_config\<lparr>cfg_email := Some ''ada@example.org''\<rparr>)
      (scripted [json_reply 200 (PyDict [(''user'', PyStr ''ada'')])])
      (example_client (Holds (PyStr ''old''))) logged_in_world None (Some ''secret'')
      (Some ''acme'') None =
     (Inr (), example_client (Holds PyNone),
      logged_in_world\<lparr>sent := [login_request (example_client (Holds (PyStr ''old'')))
                                    ''ada@example.org'' ''secret'' (Some ''acme'') None]\<rparr>)"
  using login_without_token_field [of None "example_config\<lparr>cfg_email := Some ''ada@example.org''\<rparr>"
      "''ada@example.org''" "Some ''secret''" "''secret''"
      "scripted [json_reply 200 (PyDict [(''user'', PyStr ''ada'')])]" logged_in_world
      "example_client (Holds (PyStr ''old''))" "Some ''acme''" None
      "\<lparr>status_code = 200, resp_text = json_dumps (PyDict [(''user'', PyStr ''ada'')]),
        resp_json = Some (PyDict [(''user'', PyStr ''ada'')])\<rparr>"
      "[(''user'', PyStr ''ada'')]"]
  by (simp add: or_config_def python_defs example_defs)

subsection \<open>C3 and C4: after logout\<close>

text \<open>
  C3. The spec has a second \<^verbatim>\<open>logout()\<close> succeed. The first one ends with \<^verbatim>\<open>del self.token\<close>,
  which removes the attribute; the second one passes the guarded removal of the file and
  then fails at the same statement with \<^verbatim>\<open>AttributeError\<close>, leaving client and world as the
  first call left them.
\<close>

theorem logout_twice:
  "logout (example_client (Holds (PyStr ''old''))) logged_in_world =
     (Inr (), example_client Deleted, logged_in_world\<lparr>auth_token_file := None\<rparr>) \<and>
   logout (example_client Deleted) (logged_in_world\<lparr>auth_token_file := None\<rparr>) =
     (Inl (AttributeError ''token''), example_client Deleted,
      logged_in_world\<lparr>auth_token_file := None\<rparr>)"
  by (simp add: logout_def example_defs)

text \<open>
  C4. The spec has every request after \<^verbatim>\<open>logout()\<close> fail with the error that asks the caller
  to log in, the \<^verbatim>\<open>ValueError\<close> of \<^verbatim>\<open>_request\<close>. After \<^verbatim>\<open>del self.token\<close> the test
  \<^verbatim>\<open>self.token is None\<close> cannot be evaluated: the request fails with \<^verbatim>\<open>AttributeError\<close>
  instead, still without sending anything.
\<close>

theorem request_after_logout:
  "logout (example_client (Holds (PyStr ''old''))) logged_in_world =
     (Inr (), example_client Deleted, logged_in_world\<lparr>auth_token_file := None\<rparr>) \<and>
   request (scripted []) (example_client Deleted) (logged_in_world\<lparr>auth_token_file := None\<rparr>)
      ''GET'' ''flows'' None None =
     (Inl (AttributeError ''token''), example_client Deleted,
      logged_in_world\<lparr>auth_token_file := None\<rparr>) \<and>
   fst (request (scripted []) (example_client Deleted)
          (logged_in_world\<lparr>auth_token_file := None\<rparr>) ''GET'' ''flows'' None None) \<noteq>
     Inl (ValueError (PyStr ''Call Client.login() to set the client token.''))"
  by (simp add: logout_def request_def example_defs)

subsection \<open>C6: errors before data\<close>

text \<open>
  C6. When the response to a GraphQL execution has a body that decodes to an object with an
  \<^verbatim>\<open>errors\<close> key, the call fails with the \<^verbatim>\<open>ValueError\<close> that carries the value under that key
  as it is; whether the object also has a \<^verbatim>\<open>data\<close> key plays no part, and no result is
  returned.
\<close>

theorem graphql_errors_first:
  assumes "request T c w ''POST'' [] (Some (graphql_params query variables))
             (Some (graphql_server c)) = (Inr r, c1, w1)"
    and "resp_text r \<noteq> []"
    and "resp_json r = Some (PyDict body)"
    and "map_of body ''errors'' = Some v"
  shows "graphql T c w query variables = (Inl (ValueError v), c1, w1)"
  using assms by (simp add: graphql_def post_def)

theorem graphql_errors_first_witness:
  "request
      (scripted [json_reply 200 (PyDict [(''data'', PyDict [(''flow'', PyInt 1)]),
                                         (''errors'', PyList [PyStr ''bad field''])])])
      (example_client (Holds (PyStr ''old''))) fresh_world ''POST'' []
      (Some (graphql_params ''query { flow }'' []))
      (Some (graphql_server (example_client (Holds (PyStr ''old''))))) =
     (Inr \<lparr>status_code = 200,
           resp_text = json_dumps (PyDict [(''data'', PyDict [(''flow'', PyInt 1)]),
                                           (''errors'', PyList [PyStr ''bad field''])]),
           resp_json = Some (PyDict [(''data'', PyDict [(''flow'', PyInt 1)]),
                                     (''errors'', PyList [PyStr ''bad field''])])\<rparr>,
      example_client (Holds (PyStr ''old'')),
      fresh_world\<lparr>sent := [requests_post ''https://api/graphql''
                               [(''Authorization'', ''Bearer old'')]
                               (Some (graphql_params ''query { flow }'' [])) None]\<rparr>) \<and>
   json_dumps (PyDict [(''data'', PyDict [(''flow'', PyInt 1)]),
                       (''errors'', PyList [PyStr ''bad field''])]) \<noteq> [] \<and>
   map_of [(''data'', PyDict [(''flow'', PyInt 1)]), (''errors'', PyList [PyStr ''bad field''])]
      ''errors'' = Some (PyList [PyStr ''bad field'']) \<and>
   map_of [(''data'', PyDict [(''flow'', PyInt 1)]), (''errors'', PyList [PyStr ''bad field''])]
      ''data'' = Some (PyDict [(''flow'', PyInt 1)]) \<and>
   graphql
      (scripted [json_reply 200 (PyDict [(''data'', PyDict [(''flow'', PyInt 1)]),
                                         (''errors'', PyList [PyStr ''bad field''])])])
      (example_client (Holds (PyStr ''old''))) fresh_world ''query { flow }'' [] =
     (Inl (ValueError (PyList [PyStr ''bad field''])), example_client (Holds (PyStr ''old'')),
      fresh_world\<lparr>sent := [requests_post ''https://api/graphql''
                               [(''Authorization'', ''Bearer old'')]
                               (Some (graphql_params ''query { flow }'' [])) None]\<rparr>)"
  using graphql_errors_first
    [of "scripted [json_reply 200 (PyDict [(''data'', PyDict [(''flow'', PyInt 1)]),
                                           (''errors'', PyList [PyStr ''bad field''])])]"
      "example_client (Holds (PyStr ''old''))" fresh_world "''query { flow }''" "[]"
      "\<lparr>status_code = 200,
        resp_text = json_dumps (PyDict [(''data'', PyDict [(''flow'', PyInt 1)]),
                                        (''errors'', PyList [PyStr ''bad field''])]),
        resp_json = Some (PyDict [(''data'', PyDict [(''flow'', PyInt 1)]),
                                  (''errors'', PyList [PyStr ''bad field''])])\<rparr>"
      "example_client (Holds (PyStr ''old''))"
      "fresh_world\<lparr>sent := [requests_post ''https://api/graphql''
                               [(''Authorization'', ''Bearer old'')]
                               (Some (graphql_params ''query { flow }'' [])) None]\<rparr>"
      "[(''data'', PyDict [(''flow'', PyInt 1)]), (''errors'', PyList [PyStr ''bad field''])]"
      "PyList [PyStr ''bad field'']"]
  by (simp add: python_defs example_defs client_defs)

subsection \<open>C7: how the variables are encoded\<close>

text \<open>
  The spec words C7 as: each variable value is serialised to JSON on its own before it is
  placed in the request body, so that the server finds string-encoded values. The call is
  \<^verbatim>\<open>json.dumps(variables)\<close>, once, on the whole mapping: for the single variable \<open>n = 1\<close> the
  field holds the text \<^verbatim>\<open>{"n": 1}\<close>, in which \<open>1\<close> is a JSON number, where the spec's words give
  \<^verbatim>\<open>{"n": "1"}\<close>.
\<close>

theorem graphql_variables_not_each_serialized:
  "dict_get (graphql_params ''query { flow }'' [(''n'', PyInt 1)]) ''variables'' =
     PyStr ''{\"n\": 1}'' \<and>
   spec_variables [(''n'', PyInt 1)] = PyStr ''{\"n\": \"1\"}'' \<and>
   dict_get (graphql_params ''query { flow }'' [(''n'', PyInt 1)]) ''variables'' \<noteq>
     spec_variables [(''n'', PyInt 1)] \<and>
   sent (snd (snd (graphql (scripted [json_reply 200 (PyDict [(''data'', PyDict [])])])
      (example_client (Holds (PyStr ''old''))) fresh_world ''query { flow }'' [(''n'', PyInt 1)]))) =
     [requests_post ''https://api/graphql'' [(''Authorization'', ''Bearer old'')]
        (Some [(''query'', PyStr ''query { flow }''), (''variables'', PyStr ''{\"n\": 1}'')]) None]"
  by (simp add: graphql_def graphql_params_def spec_variables_def python_defs text_defs
      example_defs client_defs)

text \<open>
  C7, as the code has it. For every GraphQL execution the mapping of all variables is
  serialised to JSON once, as a whole, and that one string is the \<^verbatim>\<open>variables\<close> field of the
  request body, next to the query text: the first request that the call sends is a POST to
  the GraphQL server with exactly these two fields, and whatever else the call sends (a
  refresh, a retry) has no body or the same body. Inside the string the variable values are
  plain JSON values, not strings of their own.
\<close>

theorem graphql_variables_one_string:
  assumes "token c = Holds t" and "t \<noteq> PyNone"
  shows "\<exists>rest. sent (snd (snd (graphql T c w query variables))) =
           sent w @ requests_post (request_url (graphql_server c) []) (bearer t)
              (Some [(''query'', PyStr query),
                     (''variables'', PyStr (json_dumps (PyDict variables)))]) None # rest \<and>
           (\<forall>q\<in>set rest. req_json q = None \<or>
              req_json q = Some [(''query'', PyStr query),
                     (''variables'', PyStr (json_dumps (PyDict variables)))])"
  using request_post_sent [OF assms, of T w "[]" "graphql_params query variables"
      "Some (graphql_server c)"]
  unfolding graphql_world post_world
  by (simp add: graphql_params_def server_or_api_def)

theorem graphql_variables_one_string_witness:
  "token (example_client (Holds (PyStr ''old''))) = Holds (PyStr ''old'') \<and>
   PyStr ''old'' \<noteq> PyNone \<and>
   sent (snd (snd (graphql
      (scripted [Reply unauthorized, json_reply 200 (PyDict [(''token'', PyStr ''new'')]),
                 json_reply 200 (PyDict [(''data'', PyDict [])])])
      (example_client (Holds (PyStr ''old''))) fresh_world ''query { flow }''
      [(''name'', PyStr ''x''), (''n'', PyInt 1)]))) =
     [requests_post ''https://api/graphql'' [(''Authorization'', ''Bearer old'')]
        (Some [(''query'', PyStr ''query { flow }''),
               (''variables'', PyStr ''{\"name\": \"x\", \"n\": 1}'')]) None,
      requests_post ''https://api/refresh_token'' [(''Authorization'', ''Bearer old'')] None None,
      requests_post ''https://api/graphql'' [(''Authorization'', ''Bearer new'')]
        (Some [(''query'', PyStr ''query { flow }''),
               (''variables'', PyStr ''{\"name\": \"x\", \"n\": 1}'')]) None]"
  using graphql_variables_one_string [of "example_client (Holds (PyStr ''old''))" "PyStr ''old''"
      "scripted [Reply unauthorized, json_reply 200 (PyDict [(''token'', PyStr ''new'')]),
                 json_reply 200 (PyDict [(''data'', PyDict [])])]"
      fresh_world "''query { flow }''" "[(''name'', PyStr ''x''), (''n'', PyInt 1)]"]
  by (simp add: graphql_def graphql_params_def python_defs text_defs example_defs client_defs
      Let_def)

subsection \<open>C8: what a refresh stores\<close>

text \<open>
  The spec words C8 for every refresh call: the token stored afterwards is the one the
  response provides, \<^verbatim>\<open>None\<close> when it provides none, and the previous token is never kept.
  A refresh endpoint that answers 401 with a body that is not JSON provides no token;
  \<^verbatim>\<open>response.json()\<close> raises before the assignment and the previous token stays.
\<close>

theorem refresh_token_keeps_token:
  "refresh_token (scripted [Reply unauthorized]) (example_client (Holds (PyStr ''old'')))
      fresh_world =
     (Inl JSONDecodeError, example_client (Holds (PyStr ''old'')),
      fresh_world\<lparr>sent := [requests_post ''https://api/refresh_token''
                               [(''Authorization'', ''Bearer old'')] None None]\<rparr>) \<and>
   token (fst (snd (refresh_token (scripted [Reply unauthorized])
      (example_client (Holds (PyStr ''old''))) fresh_world))) = Holds (PyStr ''old'') \<and>
   token (fst (snd (refresh_token (scripted [Reply unauthorized])
      (example_client (Holds (PyStr ''old''))) fresh_world))) \<noteq> Holds PyNone"
  by (simp add: python_defs example_defs client_defs)

text \<open>
  C8, as the code has it. A refresh call whose response body decodes to a JSON object,
  whatever the status of the response, returns and stores what the object holds under
  \<^verbatim>\<open>token\<close>, which is \<^verbatim>\<open>None\<close> when the object has no such key; the token stored before plays
  no part. A refresh call that raises has sent its one request and leaves the client, its
  token included, as it was.
\<close>

theorem refresh_token_effect:
  assumes "token c = Holds t"
  shows "(T (sent w) (refresh_request c t) = Reply r \<and> resp_json r = Some (PyDict d) \<longrightarrow>
            refresh_token T c w =
              (Inr (), c\<lparr>token := Holds (dict_get d ''token'')\<rparr>,
               w\<lparr>sent := sent w @ [refresh_request c t]\<rparr>) \<and>
            (map_of d ''token'' = None \<longrightarrow>
               token (fst (snd (refresh_token T c w))) = Holds PyNone)) \<and>
         (fst (refresh_token T c w) = Inl e \<longrightarrow>
            refresh_token T c w = (Inl e, c, w\<lparr>sent := sent w @ [refresh_request c t]\<rparr>))"
  using assms
  by (auto simp: refresh_token_def send_def dict_get_def
      split: reply.splits option.splits pyval.splits)

theorem refresh_token_effect_witness:
  "token (example_client (Holds (PyStr ''old''))) = Holds (PyStr ''old'') \<and>
   scripted [json_reply 500 (PyDict [])] (sent fresh_world)
      (refresh_request (example_client (Holds (PyStr ''old''))) (PyStr ''old'')) =
     Reply \<lparr>status_code = 500, resp_text = ''{}'', resp_json = Some (PyDict [])\<rparr> \<and>
   map_of ([] :: (string \<times> pyval) list) ''token'' = None \<and>
   refresh_token (scripted [json_reply 500 (PyDict [])]) (example_client (Holds (PyStr ''old'')))
      fresh_world =
     (Inr (), example_client (Holds PyNone),
      fresh_world\<lparr>sent := [refresh_request (example_client (Holds (PyStr ''old'')))
                               (PyStr ''old'')]\<rparr>) \<and>
   scripted [json_reply 200 (PyDict [(''token'', PyStr ''new'')])] (sent fresh_world)
      (refresh_request (example_client (Holds (PyStr ''old''))) (PyStr ''old'')) =
     json_reply 200 (PyDict [(''token'', PyStr ''new'')]) \<and>
   refresh_token (scripted [json_reply 200 (PyDict [(''token'', PyStr ''new'')])])
      (example_client (Holds (PyStr ''old''))) fresh_world =
     (Inr (), example_client (Holds (PyStr ''new'')),
      fresh_world\<lparr>sent := [refresh_request (example_client (Holds (PyStr ''old'')))
                               (PyStr ''old'')]\<rparr>) \<and>
   fst (refresh_token (scripted [Fails ''connection refused''])
      (example_client (Holds (PyStr ''old''))) fresh_world) =
     Inl (ConnectionError ''connection refused'') \<and>
   refresh_token (scripted [Fails ''connection refused''])
      (example_client (Holds (PyStr ''old''))) fresh_world =
     (Inl (ConnectionError ''connection refused''), example_client (Holds (PyStr ''old'')),
      fresh_world\<lparr>sent := [refresh_request (example_client (Holds (PyStr ''old'')))
                               (PyStr ''old'')]\<rparr>)"
  using
    refresh_token_effect [of "example_client (Holds (PyStr ''old''))" "PyStr ''old''"
      "scripted [json_reply 500 (PyDict [])]" fresh_world
      "\<lparr>status_code = 500, resp_text = ''{}'', resp_json = Some (PyDict [])\<rparr>" "[]"
      JSONDecodeError]
    refresh_token_effect [of "example_client (Holds (PyStr ''old''))" "PyStr ''old''"
      "scripted [json_reply 200 (PyDict [(''token'', PyStr ''new'')])]" fresh_world
      "\<lparr>status_code = 200, resp_text = json_dumps (PyDict [(''token'', PyStr ''new'')]),
        resp_json = Some (PyDict [(''token'', PyStr ''new'')])\<rparr>"
      "[(''token'', PyStr ''new'')]" JSONDecodeError]
    refresh_token_effect [of "example_client (Holds (PyStr ''old''))" "PyStr ''old''"
      "scripted [Fails ''connection refused'']" fresh_world
      "\<lparr>status_code = 200, resp_text = ''{}'', resp_json = Some (PyDict [])\<rparr>" "[]"
      "ConnectionError ''connection refused''"]
  by (simp add: python_defs example_defs client_defs)

end
